theory Spec2Isabelle
  imports Main "HOL-Library.Word"
begin

unbundle bit_operations_syntax

section \<open>C and Windows scalar types\<close>

text \<open>
  The shim (\<^verbatim>\<open>src/phase2/windows/cfapi_shim.cpp\<close>) is built for Windows only, where
  \<^verbatim>\<open>long\<close>, \<^verbatim>\<open>int\<close>, \<^verbatim>\<open>DWORD\<close>, \<^verbatim>\<open>HRESULT\<close> and \<^verbatim>\<open>NTSTATUS\<close> are 32 bits wide
  and \<^verbatim>\<open>long long\<close>, \<^verbatim>\<open>LONGLONG\<close> and \<^verbatim>\<open>ULONGLONG\<close> are 64 bits wide. Casts
  between a signed and an unsigned type of the same width keep the bits, so one word type
  stands for both and \<^term>\<open>sint\<close> or \<^term>\<open>uint\<close> chooses the reading.
\<close>

type_synonym byte = "8 word"
type_synonym WCHAR = "16 word"
type_synonym DWORD = "32 word"
type_synonym HRESULT = "32 word"
type_synonym NTSTATUS = "32 word"
type_synonym c_long = "32 word"
type_synonym c_int = "32 word"
type_synonym LONGLONG = "64 word"
type_synonym HANDLE = "64 word"
type_synonym CF_CONNECTION_KEY = "64 word"
type_synonym CF_TRANSFER_KEY = "64 word"
type_synonym wstring = "WCHAR list"

text \<open>
  A \<^verbatim>\<open>const char *\<close> argument: \<^term>\<open>None\<close> is the null pointer, \<^term>\<open>Some b\<close>
  points to a buffer that holds the bytes \<^term>\<open>b\<close> followed by a terminating NUL
  (the buffer a caller gets by copying a byte string \<^term>\<open>b\<close> into a C string).
  The bytes \<^term>\<open>b\<close> themselves may contain NUL.
\<close>

type_synonym c_string = "byte list option"

text \<open>A \<^verbatim>\<open>const void *\<close> that the shim only passes on is its address.\<close>

type_synonym void_ptr = "64 word"

definition nullptr :: void_ptr where
  "nullptr = 0"

text \<open>\<^verbatim>\<open>strlen\<close> on the buffer behind a non-null \<^verbatim>\<open>const char *\<close>: the number of bytes
  before the first NUL.\<close>

definition strlen :: "byte list \<Rightarrow> nat" where
  "strlen b = length (takeWhile (\<lambda>c. c \<noteq> 0) b)"

text \<open>What a reader that is given a pointer and a byte count finds in the buffer.\<close>

definition read_bytes :: "byte list \<Rightarrow> DWORD \<Rightarrow> byte list" where
  "read_bytes b n = take (unat n) (b @ [0])"

subsection \<open>Status codes\<close>

text \<open>The \<^verbatim>\<open>winerror.h\<close> macros and codes the shim names (the header is not part of the
  repository): \<^verbatim>\<open>FAILED(hr)\<close> is \<^verbatim>\<open>((HRESULT)(hr) < 0)\<close>, \<^verbatim>\<open>SUCCEEDED(hr)\<close> is
  \<^verbatim>\<open>((HRESULT)(hr) >= 0)\<close>.\<close>

definition FAILED :: "HRESULT \<Rightarrow> bool" where
  "FAILED hr = (sint hr < 0)"

definition SUCCEEDED :: "HRESULT \<Rightarrow> bool" where
  "SUCCEEDED hr = (0 \<le> sint hr)"

definition S_OK :: HRESULT where
  "S_OK = 0"

definition S_FALSE :: HRESULT where
  "S_FALSE = 1"

definition RPC_E_CHANGED_MODE :: HRESULT where
  "RPC_E_CHANGED_MODE = 0x80010106"

definition STATUS_SUCCESS :: NTSTATUS where
  "STATUS_SUCCESS = 0"

definition INVALID_HANDLE_VALUE :: HANDLE where
  "INVALID_HANDLE_VALUE = - 1"

section \<open>Identity/Time codec\<close>

record FILETIME =
  dwLowDateTime :: DWORD
  dwHighDateTime :: DWORD

text \<open>\<^verbatim>\<open>UnixToFileTime\<close> (lines 48--57): the sum and the product are taken in
  \<^verbatim>\<open>unsigned long long\<close>, then split into the two halves of the \<^verbatim>\<open>ULARGE_INTEGER\<close>.\<close>

definition UnixToFileTime :: "LONGLONG \<Rightarrow> FILETIME" where
  "UnixToFileTime unixTime =
     (let QuadPart = (unixTime + 11644473600) * 10000000 :: 64 word
      in \<lparr>dwLowDateTime = ucast QuadPart,
          dwHighDateTime = ucast (drop_bit 32 QuadPart)\<rparr>)"

text \<open>\<^verbatim>\<open>*reinterpret_cast<LONGLONG *>(&ft)\<close>: the eight bytes of the \<^verbatim>\<open>FILETIME\<close> read
  as one little-endian 64-bit value, low half first.\<close>

definition reinterpret_LONGLONG :: "FILETIME \<Rightarrow> LONGLONG" where
  "reinterpret_LONGLONG ft =
     ucast (dwLowDateTime ft) OR push_bit 32 (ucast (dwHighDateTime ft))"

section \<open>The platform structures the shim fills in\<close>

text \<open>
  The Cloud Files structures and enumerations come from \<^verbatim>\<open>cfapi.h\<close> and \<^verbatim>\<open>windows.h\<close>,
  which are not part of the repository. Enumerators whose numeric value the shim never
  looks at are constructors under their header names; a bit mask built with \<^verbatim>\<open>|\<close> is the
  set of its enumerators, and the \<^verbatim>\<open>..._NONE\<close> mask is the empty set. A structure that
  the source zero-initialises with \<^verbatim>\<open>= {}\<close> has every field the source does not assign
  at its zero value. \<^verbatim>\<open>StructSize\<close> and \<^verbatim>\<open>ParamSize\<close> hold \<^verbatim>\<open>sizeof\<close> of the C layout
  and are left out.
\<close>

record GUID =
  Data1 :: "32 word"
  Data2 :: "16 word"
  Data3 :: "16 word"
  Data4 :: "byte list"

record CF_SYNC_REGISTRATION =
  ProviderName :: wstring
  ProviderVersion :: wstring
  SyncRootIdentity :: void_ptr
  SyncRootIdentityLength :: DWORD
  RootFileIdentity :: void_ptr
  RootFileIdentityLength :: DWORD
  ProviderId :: GUID

datatype CF_HYDRATION_POLICY_PRIMARY =
  CF_HYDRATION_POLICY_PARTIAL | CF_HYDRATION_POLICY_PROGRESSIVE
  | CF_HYDRATION_POLICY_FULL | CF_HYDRATION_POLICY_ALWAYS_FULL

datatype CF_HYDRATION_POLICY_MODIFIER =
  CF_HYDRATION_POLICY_MODIFIER_VALIDATION_REQUIRED
  | CF_HYDRATION_POLICY_MODIFIER_STREAMING_ALLOWED
  | CF_HYDRATION_POLICY_MODIFIER_AUTO_DEHYDRATION_ALLOWED

datatype CF_POPULATION_POLICY_PRIMARY =
  CF_POPULATION_POLICY_PARTIAL | CF_POPULATION_POLICY_FULL
  | CF_POPULATION_POLICY_ALWAYS_FULL

datatype CF_INSYNC_POLICY = CF_INSYNC_POLICY_NONE | CF_INSYNC_POLICY_TRACK_ALL

datatype CF_HARDLINK_POLICY = CF_HARDLINK_POLICY_NONE | CF_HARDLINK_POLICY_ALLOWED

datatype CF_PLACEHOLDER_MANAGEMENT_POLICY =
  CF_PLACEHOLDER_MANAGEMENT_POLICY_CREATE_UNRESTRICTED
  | CF_PLACEHOLDER_MANAGEMENT_POLICY_CONVERT_TO_UNRESTRICTED
  | CF_PLACEHOLDER_MANAGEMENT_POLICY_UPDATE_UNRESTRICTED

text \<open>\<^verbatim>\<open>CF_SYNC_POLICIES\<close>, with \<^verbatim>\<open>Hydration.Primary\<close> written \<open>Hydration_Primary\<close>.\<close>

record CF_SYNC_POLICIES =
  Hydration_Primary :: CF_HYDRATION_POLICY_PRIMARY
  Hydration_Modifier :: "CF_HYDRATION_POLICY_MODIFIER set"
  Population_Primary :: CF_POPULATION_POLICY_PRIMARY
  Population_Modifier :: "unit set"
  InSync :: CF_INSYNC_POLICY
  HardLink :: CF_HARDLINK_POLICY
  PlaceholderManagement :: "CF_PLACEHOLDER_MANAGEMENT_POLICY set"

datatype CF_REGISTER_FLAG =
  CF_REGISTER_FLAG_UPDATE
  | CF_REGISTER_FLAG_DISABLE_ON_DEMAND_POPULATION_ON_ROOT
  | CF_REGISTER_FLAG_MARK_IN_SYNC_ON_ROOT

datatype CF_CALLBACK_TYPE = CF_CALLBACK_TYPE_FETCH_DATA | CF_CALLBACK_TYPE_CANCEL_FETCH_DATA

datatype callback = FetchDataCallback | CancelFetchDataCallback

type_synonym CF_CALLBACK_REGISTRATION = "CF_CALLBACK_TYPE \<times> callback"

datatype CF_CONNECT_FLAG =
  CF_CONNECT_FLAG_REQUIRE_PROCESS_INFO
  | CF_CONNECT_FLAG_REQUIRE_FULL_FILE_PATH
  | CF_CONNECT_FLAG_BLOCK_SELF_IMPLICIT_HYDRATION

datatype FILE_ATTRIBUTE = FILE_ATTRIBUTE_DIRECTORY | FILE_ATTRIBUTE_NORMAL

record FILE_BASIC_INFO =
  CreationTime :: LONGLONG
  LastAccessTime :: LONGLONG
  LastWriteTime :: LONGLONG
  ChangeTime :: LONGLONG
  FileAttributes :: "FILE_ATTRIBUTE set"

record CF_FS_METADATA =
  BasicInfo :: FILE_BASIC_INFO
  FileSize :: LONGLONG

datatype CF_PLACEHOLDER_CREATE_FLAG =
  CF_PLACEHOLDER_CREATE_FLAG_DISABLE_ON_DEMAND_POPULATION
  | CF_PLACEHOLDER_CREATE_FLAG_MARK_IN_SYNC
  | CF_PLACEHOLDER_CREATE_FLAG_SUPERSEDE

text \<open>\<open>FileIdentity\<close> is a pointer in C; here it is the buffer behind the pointer (the
  bytes, then a NUL), of which the platform reads \<open>FileIdentityLength\<close> bytes.\<close>

record CF_PLACEHOLDER_CREATE_INFO =
  RelativeFileName :: wstring
  FsMetadata :: CF_FS_METADATA
  FileIdentity :: "byte list"
  FileIdentityLength :: DWORD
  Flags :: "CF_PLACEHOLDER_CREATE_FLAG set"
  Result :: HRESULT
  CreateUsn :: LONGLONG

datatype CF_CREATE_FLAG = CF_CREATE_FLAG_STOP_ON_ERROR

datatype CF_UPDATE_FLAG =
  CF_UPDATE_FLAG_MARK_IN_SYNC | CF_UPDATE_FLAG_DEHYDRATE | CF_UPDATE_FLAG_CLEAR_IN_SYNC

datatype CF_DEHYDRATE_FLAG = CF_DEHYDRATE_FLAG_BACKGROUND

datatype ACCESS_RIGHT = WRITE_DAC

datatype SHARE_MODE = FILE_SHARE_READ

datatype CREATION_DISPOSITION = OPEN_EXISTING

datatype FILE_FLAG = FILE_FLAG_BACKUP_SEMANTICS

datatype COINIT = COINIT_MULTITHREADED | COINIT_APARTMENTTHREADED

datatype CF_OPERATION_TYPE = CF_OPERATION_TYPE_TRANSFER_DATA | CF_OPERATION_TYPE_ACK_DATA

record CF_OPERATION_INFO =
  Type :: CF_OPERATION_TYPE
  ConnectionKey :: CF_CONNECTION_KEY
  TransferKey :: CF_TRANSFER_KEY
  RequestKey :: LONGLONG

text \<open>The \<^verbatim>\<open>TransferData\<close> member of \<^verbatim>\<open>CF_OPERATION_PARAMETERS\<close>.\<close>

record CF_OPERATION_PARAMETERS =
  TransferDataFlags :: "unit set"
  CompletionStatus :: NTSTATUS
  Buffer :: void_ptr
  Offset :: LONGLONG
  Length :: LONGLONG

section \<open>The platform\<close>

text \<open>
  Every function of the shim ends in calls of the operating system. The platform is a
  parameter: a record of the functions the shim calls, over a state \<open>'w\<close> of the world
  that each call may read and change. A call takes what the shim passes (null and
  constant arguments left out) and returns what the shim reads back.
  \<^item> \<open>MultiByteToWideChar\<close> takes the bytes of a NUL-terminated UTF-8 string and returns
    the wide characters it writes, the terminator included; the empty list is failure
    (a return of 0).
  \<^item> \<open>CfCreatePlaceholders\<close> returns its \<^verbatim>\<open>HRESULT\<close> and the \<^verbatim>\<open>Result\<close> field of the one
    entry as the platform leaves it.
  \<^item> \<open>HRESULT_FROM_WIN32\<close> is the \<^verbatim>\<open>winerror.h\<close> conversion.
\<close>

record 'w platform =
  MultiByteToWideChar :: "byte list \<Rightarrow> wstring"
  HRESULT_FROM_WIN32 :: "DWORD \<Rightarrow> HRESULT"
  GetLastError :: "'w \<Rightarrow> DWORD"
  CoInitializeEx :: "COINIT \<Rightarrow> 'w \<Rightarrow> HRESULT \<times> 'w"
  CfRegisterSyncRoot ::
    "wstring \<Rightarrow> CF_SYNC_REGISTRATION \<Rightarrow> CF_SYNC_POLICIES \<Rightarrow> CF_REGISTER_FLAG set
      \<Rightarrow> 'w \<Rightarrow> HRESULT \<times> 'w"
  CfConnectSyncRoot ::
    "wstring \<Rightarrow> CF_CALLBACK_REGISTRATION list \<Rightarrow> CF_CONNECT_FLAG set
      \<Rightarrow> 'w \<Rightarrow> (HRESULT \<times> CF_CONNECTION_KEY) \<times> 'w"
  CfDisconnectSyncRoot :: "CF_CONNECTION_KEY \<Rightarrow> 'w \<Rightarrow> HRESULT \<times> 'w"
  CfUnregisterSyncRoot :: "wstring \<Rightarrow> 'w \<Rightarrow> HRESULT \<times> 'w"
  CfCreatePlaceholders ::
    "wstring \<Rightarrow> CF_PLACEHOLDER_CREATE_INFO \<Rightarrow> CF_CREATE_FLAG set
      \<Rightarrow> 'w \<Rightarrow> (HRESULT \<times> HRESULT) \<times> 'w"
  CreateFileW ::
    "wstring \<Rightarrow> ACCESS_RIGHT set \<Rightarrow> SHARE_MODE set \<Rightarrow> CREATION_DISPOSITION
      \<Rightarrow> FILE_FLAG set \<Rightarrow> 'w \<Rightarrow> HANDLE \<times> 'w"
  CloseHandle :: "HANDLE \<Rightarrow> 'w \<Rightarrow> 'w"
  CfUpdatePlaceholder ::
    "HANDLE \<Rightarrow> CF_FS_METADATA \<Rightarrow> byte list \<Rightarrow> DWORD \<Rightarrow> CF_UPDATE_FLAG set
      \<Rightarrow> 'w \<Rightarrow> HRESULT \<times> 'w"
  CfDehydratePlaceholder ::
    "HANDLE \<Rightarrow> LONGLONG \<Rightarrow> LONGLONG \<Rightarrow> CF_DEHYDRATE_FLAG set \<Rightarrow> 'w \<Rightarrow> HRESULT \<times> 'w"
  CfExecute ::
    "CF_OPERATION_INFO \<Rightarrow> CF_OPERATION_PARAMETERS \<Rightarrow> 'w \<Rightarrow> HRESULT \<times> 'w"

section \<open>Helpers\<close>

text \<open>\<^verbatim>\<open>Utf8ToWide\<close> (lines 38--45). \<^verbatim>\<open>!utf8 || !*utf8\<close> is the null pointer or a first
  byte of NUL; \<^verbatim>\<open>len\<close> counts the terminator, which the result drops.\<close>

definition Utf8ToWide :: "'w platform \<Rightarrow> c_string \<Rightarrow> wstring" where
  "Utf8ToWide pf utf8 =
     (case utf8 of
        None \<Rightarrow> []
      | Some b \<Rightarrow>
          if strlen b = 0 then []
          else
            let converted = MultiByteToWideChar pf (takeWhile (\<lambda>c. c \<noteq> 0) b);
                len = int (length converted)
            in if len \<le> 0 then [] else take (nat (len - 1)) converted)"

section \<open>Hydration callbacks\<close>

text \<open>\<^verbatim>\<open>s_callbackTable\<close> (lines 89--93); the end marker is the end of the list.\<close>

definition s_callbackTable :: "CF_CALLBACK_REGISTRATION list" where
  "s_callbackTable =
     [(CF_CALLBACK_TYPE_FETCH_DATA, FetchDataCallback),
      (CF_CALLBACK_TYPE_CANCEL_FETCH_DATA, CancelFetchDataCallback)]"

section \<open>Public API\<close>

text \<open>
  Each function takes the platform and the state of the world and returns its C return
  value with the state the platform calls leave. A \<^verbatim>\<open>void\<close> function returns \<^term>\<open>()\<close>.
  \<^verbatim>\<open>static_cast<long>(hr)\<close> keeps the value: \<^verbatim>\<open>HRESULT\<close> is \<^verbatim>\<open>long\<close>.
\<close>

text \<open>\<^verbatim>\<open>cfapi_init\<close> (lines 99--106).\<close>

definition cfapi_init :: "'w platform \<Rightarrow> 'w \<Rightarrow> c_long \<times> 'w" where
  "cfapi_init pf w =
     (case CoInitializeEx pf COINIT_MULTITHREADED w of
        (hr, w') \<Rightarrow>
          if FAILED hr \<and> hr \<noteq> RPC_E_CHANGED_MODE then (hr, w') else (0, w'))"

text \<open>The fixed GUID of lines 120--123, \<^verbatim>\<open>{A1B2C3D4-E5F6-7890-ABCD-EF1234567890}\<close>.\<close>

definition s_providerId :: GUID where
  "s_providerId =
     \<lparr>Data1 = 0xa1b2c3d4, Data2 = 0xe5f6, Data3 = 0x7890,
      Data4 = [0xab, 0xcd, 0xef, 0x12, 0x34, 0x56, 0x78, 0x90]\<rparr>"

text \<open>The registration structure of lines 116--124.\<close>

definition sync_registration :: "wstring \<Rightarrow> wstring \<Rightarrow> CF_SYNC_REGISTRATION" where
  "sync_registration wName wVer =
     \<lparr>ProviderName = wName, ProviderVersion = wVer,
      SyncRootIdentity = nullptr, SyncRootIdentityLength = 0,
      RootFileIdentity = nullptr, RootFileIdentityLength = 0,
      ProviderId = s_providerId\<rparr>"

text \<open>The policies of lines 126--131.\<close>

definition sync_policies :: CF_SYNC_POLICIES where
  "sync_policies =
     \<lparr>Hydration_Primary = CF_HYDRATION_POLICY_FULL, Hydration_Modifier = {},
      Population_Primary = CF_POPULATION_POLICY_FULL, Population_Modifier = {},
      InSync = CF_INSYNC_POLICY_TRACK_ALL,
      HardLink = CF_HARDLINK_POLICY_NONE,
      PlaceholderManagement = {}\<rparr>"

text \<open>\<^verbatim>\<open>cfapi_register_sync_root\<close> (lines 108--136).\<close>

definition cfapi_register_sync_root ::
  "'w platform \<Rightarrow> c_string \<Rightarrow> c_string \<Rightarrow> c_string \<Rightarrow> 'w \<Rightarrow> c_long \<times> 'w" where
  "cfapi_register_sync_root pf sync_root_path display_name version w =
     (let wRoot = Utf8ToWide pf sync_root_path;
          wName = Utf8ToWide pf display_name;
          wVer = Utf8ToWide pf version
      in CfRegisterSyncRoot pf wRoot (sync_registration wName wVer) sync_policies
           {CF_REGISTER_FLAG_UPDATE} w)"

text \<open>\<^verbatim>\<open>cfapi_connect_sync_root\<close> (lines 138--152); \<^verbatim>\<open>*out_key\<close> is returned beside
  the status.\<close>

definition cfapi_connect_sync_root ::
  "'w platform \<Rightarrow> c_string \<Rightarrow> 'w \<Rightarrow> (c_long \<times> CF_CONNECTION_KEY) \<times> 'w" where
  "cfapi_connect_sync_root pf sync_root_path w =
     CfConnectSyncRoot pf (Utf8ToWide pf sync_root_path) s_callbackTable
       {CF_CONNECT_FLAG_REQUIRE_PROCESS_INFO, CF_CONNECT_FLAG_REQUIRE_FULL_FILE_PATH} w"


text \<open>\<^verbatim>\<open>cfapi_unregister_sync_root\<close> (lines 158--162).\<close>

definition cfapi_unregister_sync_root :: "'w platform \<Rightarrow> c_string \<Rightarrow> 'w \<Rightarrow> c_long \<times> 'w" where
  "cfapi_unregister_sync_root pf sync_root_path w =
     CfUnregisterSyncRoot pf (Utf8ToWide pf sync_root_path) w"

text \<open>The one way a call can fail without a status: \<^verbatim>\<open>strlen\<close> of a null
  \<^verbatim>\<open>file_identity\<close> reads through the null pointer.\<close>

datatype fault = AccessViolation

text \<open>The placeholder record of lines 174--199, for a non-null \<^verbatim>\<open>file_identity\<close> whose
  buffer holds \<open>ident\<close>. \<^verbatim>\<open>static_cast<DWORD>\<close> keeps the low 32 bits of the length.\<close>

definition placeholder_create_info ::
  "wstring \<Rightarrow> byte list \<Rightarrow> LONGLONG \<Rightarrow> LONGLONG \<Rightarrow> c_int \<Rightarrow> CF_PLACEHOLDER_CREATE_INFO" where
  "placeholder_create_info wName ident file_size mtime_unix is_directory =
     (let ftMtime = UnixToFileTime mtime_unix
      in \<lparr>RelativeFileName = wName,
          FsMetadata =
            \<lparr>BasicInfo =
               \<lparr>CreationTime = reinterpret_LONGLONG ftMtime,
                LastAccessTime = reinterpret_LONGLONG ftMtime,
                LastWriteTime = reinterpret_LONGLONG ftMtime,
                ChangeTime = reinterpret_LONGLONG ftMtime,
                FileAttributes =
                  (if is_directory \<noteq> 0 then {FILE_ATTRIBUTE_DIRECTORY}
                   else {FILE_ATTRIBUTE_NORMAL})\<rparr>,
             FileSize = file_size\<rparr>,
          FileIdentity = ident,
          FileIdentityLength = of_nat (strlen ident),
          Flags =
            (if is_directory \<noteq> 0
             then {CF_PLACEHOLDER_CREATE_FLAG_MARK_IN_SYNC,
                   CF_PLACEHOLDER_CREATE_FLAG_DISABLE_ON_DEMAND_POPULATION}
             else {CF_PLACEHOLDER_CREATE_FLAG_MARK_IN_SYNC}),
          Result = S_OK,
          CreateUsn = 0\<rparr>)"

text \<open>\<^verbatim>\<open>cfapi_create_placeholder\<close> (lines 164--207).\<close>

definition cfapi_create_placeholder ::
  "'w platform \<Rightarrow> c_string \<Rightarrow> c_string \<Rightarrow> c_string \<Rightarrow> LONGLONG \<Rightarrow> LONGLONG \<Rightarrow> c_int
    \<Rightarrow> 'w \<Rightarrow> fault + (c_long \<times> 'w)" where
  "cfapi_create_placeholder pf parent_path name file_identity file_size mtime_unix
       is_directory w =
     (let wParent = Utf8ToWide pf parent_path;
          wName = Utf8ToWide pf name
      in case file_identity of
           None \<Rightarrow> Inl AccessViolation
         | Some ident \<Rightarrow>
             (case CfCreatePlaceholders pf wParent
                     (placeholder_create_info wName ident file_size mtime_unix is_directory)
                     {} w of
                ((hr, phInfo_Result), w') \<Rightarrow>
                  Inr (if SUCCEEDED hr \<and> FAILED phInfo_Result then phInfo_Result else hr,
                       w')))"

text \<open>The metadata of lines 225--230: \<^verbatim>\<open>CF_FS_METADATA fsMetadata = {}\<close>, then three
  assignments.\<close>

definition update_fs_metadata :: "LONGLONG \<Rightarrow> LONGLONG \<Rightarrow> CF_FS_METADATA" where
  "update_fs_metadata file_size mtime_unix =
     (let ftMtime = UnixToFileTime mtime_unix
      in \<lparr>BasicInfo =
            \<lparr>CreationTime = 0,
             LastAccessTime = 0,
             LastWriteTime = reinterpret_LONGLONG ftMtime,
             ChangeTime = reinterpret_LONGLONG ftMtime,
             FileAttributes = {}\<rparr>,
          FileSize = file_size\<rparr>)"

text \<open>\<^verbatim>\<open>cfapi_update_placeholder\<close> (lines 209--243). The file is opened before
  \<^verbatim>\<open>file_identity\<close> is read.\<close>

definition cfapi_update_placeholder ::
  "'w platform \<Rightarrow> c_string \<Rightarrow> c_string \<Rightarrow> LONGLONG \<Rightarrow> LONGLONG
    \<Rightarrow> 'w \<Rightarrow> fault + (c_long \<times> 'w)" where
  "cfapi_update_placeholder pf file_path file_identity file_size mtime_unix w =
     (case CreateFileW pf (Utf8ToWide pf file_path) {WRITE_DAC} {FILE_SHARE_READ}
             OPEN_EXISTING {FILE_FLAG_BACKUP_SEMANTICS} w of
        (hFile, w1) \<Rightarrow>
          if hFile = INVALID_HANDLE_VALUE
          then Inr (HRESULT_FROM_WIN32 pf (GetLastError pf w1), w1)
          else
            (case file_identity of
               None \<Rightarrow> Inl AccessViolation
             | Some ident \<Rightarrow>
                 (case CfUpdatePlaceholder pf hFile (update_fs_metadata file_size mtime_unix)
                         ident (of_nat (strlen ident)) {CF_UPDATE_FLAG_MARK_IN_SYNC} w1 of
                    (hr, w2) \<Rightarrow> Inr (hr, CloseHandle pf hFile w2))))"

text \<open>\<^verbatim>\<open>cfapi_dehydrate_placeholder\<close> (lines 245--260).\<close>

definition cfapi_dehydrate_placeholder :: "'w platform \<Rightarrow> c_string \<Rightarrow> 'w \<Rightarrow> c_long \<times> 'w" where
  "cfapi_dehydrate_placeholder pf file_path w =
     (case CreateFileW pf (Utf8ToWide pf file_path) {WRITE_DAC} {FILE_SHARE_READ}
             OPEN_EXISTING {FILE_FLAG_BACKUP_SEMANTICS} w of
        (hFile, w1) \<Rightarrow>
          if hFile = INVALID_HANDLE_VALUE
          then (HRESULT_FROM_WIN32 pf (GetLastError pf w1), w1)
          else
            (case CfDehydratePlaceholder pf hFile 0 (- 1) {} w1 of
               (hr, w2) \<Rightarrow> (hr, CloseHandle pf hFile w2)))"

text \<open>The operation header of lines 268--272, the same in lines 290--294.\<close>

definition transfer_op_info :: "CF_CONNECTION_KEY \<Rightarrow> CF_TRANSFER_KEY \<Rightarrow> CF_OPERATION_INFO" where
  "transfer_op_info conn_key transfer_key =
     \<lparr>Type = CF_OPERATION_TYPE_TRANSFER_DATA,
      ConnectionKey = conn_key,
      TransferKey = transfer_key,
      RequestKey = 0\<rparr>"

text \<open>The parameters of lines 274--279.\<close>

definition transfer_data_params ::
  "void_ptr \<Rightarrow> LONGLONG \<Rightarrow> LONGLONG \<Rightarrow> CF_OPERATION_PARAMETERS" where
  "transfer_data_params data offset length' =
     \<lparr>TransferDataFlags = {},
      CompletionStatus = STATUS_SUCCESS,
      Buffer = data,
      Offset = offset,
      Length = length'\<rparr>"

text \<open>\<^verbatim>\<open>cfapi_transfer_data\<close> (lines 262--283).\<close>

definition cfapi_transfer_data ::
  "'w platform \<Rightarrow> CF_CONNECTION_KEY \<Rightarrow> CF_TRANSFER_KEY \<Rightarrow> void_ptr \<Rightarrow> LONGLONG \<Rightarrow> LONGLONG
    \<Rightarrow> 'w \<Rightarrow> c_long \<times> 'w" where
  "cfapi_transfer_data pf conn_key transfer_key data offset length' w =
     CfExecute pf (transfer_op_info conn_key transfer_key)
       (transfer_data_params data offset length') w"

text \<open>The parameters of lines 296--301; \<^verbatim>\<open>static_cast<NTSTATUS>(hr)\<close> keeps the value.\<close>

definition transfer_error_params :: "LONGLONG \<Rightarrow> c_long \<Rightarrow> CF_OPERATION_PARAMETERS" where
  "transfer_error_params offset hr =
     \<lparr>TransferDataFlags = {},
      CompletionStatus = hr,
      Buffer = nullptr,
      Offset = offset,
      Length = 0\<rparr>"

text \<open>\<^verbatim>\<open>cfapi_transfer_error\<close> (lines 285--304): a \<^verbatim>\<open>void\<close> function; the status of
  \<^verbatim>\<open>CfExecute\<close> is not read.\<close>

definition cfapi_transfer_error ::
  "'w platform \<Rightarrow> CF_CONNECTION_KEY \<Rightarrow> CF_TRANSFER_KEY \<Rightarrow> LONGLONG \<Rightarrow> c_long
    \<Rightarrow> 'w \<Rightarrow> unit \<times> 'w" where
  "cfapi_transfer_error pf conn_key transfer_key offset hr w =
     ((), snd (CfExecute pf (transfer_op_info conn_key transfer_key)
                 (transfer_error_params offset hr) w))"

section \<open>A reference platform\<close>

text \<open>
  The theorems below hold for every platform. To run them on concrete calls, here is one
  small executable platform: a registry of sync roots keyed by path, the live connection
  keys, the placeholders with the metadata and identity bytes the platform has read, the
  open handles and the transfer completions it has accepted. It refuses with \<open>E_FAIL\<close>.
  It is a stand-in for the operating system and no part of the shim.
\<close>

record ref_world =
  com_mode :: "COINIT option"
  roots :: "wstring \<rightharpoonup> CF_SYNC_REGISTRATION \<times> CF_SYNC_POLICIES"
  live :: "CF_CONNECTION_KEY list"
  issued :: CF_CONNECTION_KEY
  files :: "wstring \<rightharpoonup> CF_FS_METADATA \<times> byte list"
  handles :: "(HANDLE \<times> wstring) list"
  last_error :: DWORD
  transfers :: "(CF_OPERATION_INFO \<times> CF_OPERATION_PARAMETERS) list"

definition E_FAIL :: HRESULT where
  "E_FAIL = 0x80004005"

definition ERROR_FILE_NOT_FOUND :: DWORD where
  "ERROR_FILE_NOT_FOUND = 2"

definition ref_HRESULT_FROM_WIN32 :: "DWORD \<Rightarrow> HRESULT" where
  "ref_HRESULT_FROM_WIN32 x =
     (if sint x \<le> 0 then x else (x AND 0x0000FFFF) OR 0x80070000)"

definition ref_CoInitializeEx :: "COINIT \<Rightarrow> ref_world \<Rightarrow> HRESULT \<times> ref_world" where
  "ref_CoInitializeEx mode w =
     (case com_mode w of
        None \<Rightarrow> (S_OK, w\<lparr>com_mode := Some mode\<rparr>)
      | Some m \<Rightarrow> if m = mode then (S_FALSE, w) else (RPC_E_CHANGED_MODE, w))"

definition ref_CfRegisterSyncRoot ::
  "wstring \<Rightarrow> CF_SYNC_REGISTRATION \<Rightarrow> CF_SYNC_POLICIES \<Rightarrow> CF_REGISTER_FLAG set
    \<Rightarrow> ref_world \<Rightarrow> HRESULT \<times> ref_world" where
  "ref_CfRegisterSyncRoot path reg pol flags w =
     (if path = [] then (E_FAIL, w)
      else if roots w path \<noteq> None \<and> CF_REGISTER_FLAG_UPDATE \<notin> flags then (E_FAIL, w)
      else (S_OK, w\<lparr>roots := (roots w)(path \<mapsto> (reg, pol))\<rparr>))"

definition ref_CfUnregisterSyncRoot :: "wstring \<Rightarrow> ref_world \<Rightarrow> HRESULT \<times> ref_world" where
  "ref_CfUnregisterSyncRoot path w =
     (if roots w path = None then (E_FAIL, w)
      else (S_OK, w\<lparr>roots := (roots w)(path := None)\<rparr>))"

definition ref_CfConnectSyncRoot ::
  "wstring \<Rightarrow> CF_CALLBACK_REGISTRATION list \<Rightarrow> CF_CONNECT_FLAG set
    \<Rightarrow> ref_world \<Rightarrow> (HRESULT \<times> CF_CONNECTION_KEY) \<times> ref_world" where
  "ref_CfConnectSyncRoot path table flags w =
     (if roots w path = None then ((E_FAIL, 0), w)
      else ((S_OK, issued w + 1),
            w\<lparr>live := (issued w + 1) # live w, issued := issued w + 1\<rparr>))"

definition ref_CfDisconnectSyncRoot ::
  "CF_CONNECTION_KEY \<Rightarrow> ref_world \<Rightarrow> HRESULT \<times> ref_world" where
  "ref_CfDisconnectSyncRoot key w =
     (if key \<in> set (live w) then (S_OK, w\<lparr>live := removeAll key (live w)\<rparr>)
      else (E_FAIL, w))"

definition ref_path :: "wstring \<Rightarrow> wstring \<Rightarrow> wstring" where
  "ref_path parent name = parent @ [0x5C] @ name"

definition ref_CfCreatePlaceholders ::
  "wstring \<Rightarrow> CF_PLACEHOLDER_CREATE_INFO \<Rightarrow> CF_CREATE_FLAG set
    \<Rightarrow> ref_world \<Rightarrow> (HRESULT \<times> HRESULT) \<times> ref_world" where
  "ref_CfCreatePlaceholders parent info flags w =
     (if files w (ref_path parent (RelativeFileName info)) \<noteq> None
      then ((S_OK, E_FAIL), w)
      else ((S_OK, S_OK),
            w\<lparr>files := (files w)(ref_path parent (RelativeFileName info) \<mapsto>
                 (FsMetadata info,
                  read_bytes (FileIdentity info) (FileIdentityLength info)))\<rparr>))"

definition ref_CreateFileW ::
  "wstring \<Rightarrow> ACCESS_RIGHT set \<Rightarrow> SHARE_MODE set \<Rightarrow> CREATION_DISPOSITION \<Rightarrow> FILE_FLAG set
    \<Rightarrow> ref_world \<Rightarrow> HANDLE \<times> ref_world" where
  "ref_CreateFileW path access share disposition flags w =
     (if files w path = None
      then (INVALID_HANDLE_VALUE, w\<lparr>last_error := ERROR_FILE_NOT_FOUND\<rparr>)
      else (of_nat (4 * Suc (length (handles w))),
            w\<lparr>handles := (of_nat (4 * Suc (length (handles w))), path) # handles w\<rparr>))"

definition ref_CloseHandle :: "HANDLE \<Rightarrow> ref_world \<Rightarrow> ref_world" where
  "ref_CloseHandle h w = w\<lparr>handles := filter (\<lambda>e. fst e \<noteq> h) (handles w)\<rparr>"

definition ref_CfUpdatePlaceholder ::
  "HANDLE \<Rightarrow> CF_FS_METADATA \<Rightarrow> byte list \<Rightarrow> DWORD \<Rightarrow> CF_UPDATE_FLAG set
    \<Rightarrow> ref_world \<Rightarrow> HRESULT \<times> ref_world" where
  "ref_CfUpdatePlaceholder h md ident n flags w =
     (case map_of (handles w) h of
        None \<Rightarrow> (E_FAIL, w)
      | Some path \<Rightarrow> (S_OK, w\<lparr>files := (files w)(path \<mapsto> (md, read_bytes ident n))\<rparr>))"

definition ref_CfDehydratePlaceholder ::
  "HANDLE \<Rightarrow> LONGLONG \<Rightarrow> LONGLONG \<Rightarrow> CF_DEHYDRATE_FLAG set
    \<Rightarrow> ref_world \<Rightarrow> HRESULT \<times> ref_world" where
  "ref_CfDehydratePlaceholder h offset length' flags w =
     (case map_of (handles w) h of None \<Rightarrow> (E_FAIL, w) | Some path \<Rightarrow> (S_OK, w))"

definition ref_CfExecute ::
  "CF_OPERATION_INFO \<Rightarrow> CF_OPERATION_PARAMETERS \<Rightarrow> ref_world \<Rightarrow> HRESULT \<times> ref_world" where
  "ref_CfExecute info params w =
     (if ConnectionKey info \<in> set (live w)
      then (S_OK, w\<lparr>transfers := transfers w @ [(info, params)]\<rparr>)
      else (E_FAIL, w))"

definition ref_platform :: "ref_world platform" where
  "ref_platform =
     \<lparr>MultiByteToWideChar = (\<lambda>b. map ucast b @ [0]),
      HRESULT_FROM_WIN32 = ref_HRESULT_FROM_WIN32,
      GetLastError = last_error,
      CoInitializeEx = ref_CoInitializeEx,
      CfRegisterSyncRoot = ref_CfRegisterSyncRoot,
      CfConnectSyncRoot = ref_CfConnectSyncRoot,
      CfDisconnectSyncRoot = ref_CfDisconnectSyncRoot,
      CfUnregisterSyncRoot = ref_CfUnregisterSyncRoot,
      CfCreatePlaceholders = ref_CfCreatePlaceholders,
      CreateFileW = ref_CreateFileW,
      CloseHandle = ref_CloseHandle,
      CfUpdatePlaceholder = ref_CfUpdatePlaceholder,
      CfDehydratePlaceholder = ref_CfDehydratePlaceholder,
      CfExecute = ref_CfExecute\<rparr>"

text \<open>A fresh process: nothing registered, connected, created or open.\<close>

definition ref_world0 :: ref_world where
  "ref_world0 =
     \<lparr>com_mode = None, roots = Map.empty, live = [], issued = 0, files = Map.empty,
      handles = [], last_error = 0, transfers = []\<rparr>"

text \<open>The byte strings of the examples: \<^verbatim>\<open>C:\s\<close>, \<^verbatim>\<open>a\<close>, \<^verbatim>\<open>1\<close> and \<^verbatim>\<open>id\<close>.\<close>

definition ex_root :: "byte list" where
  "ex_root = [0x43, 0x3A, 0x5C, 0x73]"

definition ex_name :: "byte list" where
  "ex_name = [0x61]"

definition ex_version :: "byte list" where
  "ex_version = [0x31]"

definition ex_ident :: "byte list" where
  "ex_ident = [0x69, 0x64]"

section \<open>Notions the properties are stated with\<close>

text \<open>The whole-second Unix time that a stored timestamp stands for: the reading that
  undoes the conversion, with the sub-second part cut off. The shim has no function for
  this direction; the round-trip property compares this reading with the input.\<close>

definition filetime_unix_seconds :: "LONGLONG \<Rightarrow> int" where
  "filetime_unix_seconds ft = sint ft div 10000000 - 11644473600"

text \<open>A platform that updates a registration in place: a registration call that carries
  \<open>CF_REGISTER_FLAG_UPDATE\<close>, made again with the same arguments in the state the first
  call left, returns the same status and leaves that state as it is.\<close>

definition register_updates_in_place :: "'w platform \<Rightarrow> bool" where
  "register_updates_in_place pf =
     (\<forall>path reg pol flags w.
        CF_REGISTER_FLAG_UPDATE \<in> flags \<longrightarrow>
        CfRegisterSyncRoot pf path reg pol flags
            (snd (CfRegisterSyncRoot pf path reg pol flags w))
          = CfRegisterSyncRoot pf path reg pol flags w)"

text \<open>A platform that keeps what it is given: after a \<^verbatim>\<open>CfCreatePlaceholders\<close> call whose
  status and entry result both succeed, a metadata read of the entry under its parent
  reports the metadata of the entry and the identity bytes the entry points to. The read
  is the platform's (the shim has none), so it is a second parameter.\<close>

definition stores_placeholders ::
  "'w platform \<Rightarrow> (wstring \<Rightarrow> wstring \<Rightarrow> 'w \<Rightarrow> (CF_FS_METADATA \<times> byte list) option)
    \<Rightarrow> bool" where
  "stores_placeholders pf metadata_read =
     (\<forall>parent info flags w.
        SUCCEEDED (fst (fst (CfCreatePlaceholders pf parent info flags w))) \<and>
        SUCCEEDED (snd (fst (CfCreatePlaceholders pf parent info flags w))) \<longrightarrow>
        metadata_read parent (RelativeFileName info)
            (snd (CfCreatePlaceholders pf parent info flags w))
          = Some (FsMetadata info, read_bytes (FileIdentity info) (FileIdentityLength info)))"

text \<open>The metadata read of the reference platform.\<close>

definition ref_metadata_read ::
  "wstring \<Rightarrow> wstring \<Rightarrow> ref_world \<Rightarrow> (CF_FS_METADATA \<times> byte list) option" where
  "ref_metadata_read parent name w = files w (ref_path parent name)"



text \<open>Worlds of the reference platform used in the examples: a root registered and
  connected (the connection key is 1), and the same after the disconnect.\<close>

definition ref_connected :: ref_world where
  "ref_connected =
     snd (cfapi_connect_sync_root ref_platform (Some ex_root)
       (snd (cfapi_register_sync_root ref_platform (Some ex_root) (Some ex_name)
          (Some ex_version) ref_world0)))"


section \<open>Timestamps\<close>

lemma join_halves:
  "(ucast (ucast (q :: 64 word) :: 32 word) :: 64 word)
     OR push_bit 32 (ucast (ucast (drop_bit 32 q) :: 32 word)) = q"
  by (rule bit_word_eqI) (auto simp add: bit_simps)

lemma reinterpret_UnixToFileTime:
  "reinterpret_LONGLONG (UnixToFileTime t) = (t + 11644473600) * 10000000"
  by (simp add: reinterpret_LONGLONG_def UnixToFileTime_def Let_def join_halves)

text \<open>What the creation path and the update path hand to the platform.\<close>

lemma create_placeholder_submits:
  "cfapi_create_placeholder pf parent_path name (Some ident) file_size t is_directory w
     = (let created = CfCreatePlaceholders pf (Utf8ToWide pf parent_path)
                        (placeholder_create_info (Utf8ToWide pf name) ident file_size t
                           is_directory) {} w;
            hr = fst (fst created);
            phInfo_Result = snd (fst created)
        in Inr (if SUCCEEDED hr \<and> FAILED phInfo_Result then phInfo_Result else hr,
                snd created))"
  by (simp add: cfapi_create_placeholder_def Let_def split: prod.split)

lemma update_placeholder_submits:
  "cfapi_update_placeholder pf file_path (Some ident) file_size t w
     = (let opened = CreateFileW pf (Utf8ToWide pf file_path) {WRITE_DAC} {FILE_SHARE_READ}
                       OPEN_EXISTING {FILE_FLAG_BACKUP_SEMANTICS} w;
            hFile = fst opened;
            w1 = snd opened;
            updated = CfUpdatePlaceholder pf hFile (update_fs_metadata file_size t) ident
                        (of_nat (strlen ident)) {CF_UPDATE_FLAG_MARK_IN_SYNC} w1
        in if hFile = INVALID_HANDLE_VALUE
           then Inr (HRESULT_FROM_WIN32 pf (GetLastError pf w1), w1)
           else Inr (fst updated, CloseHandle pf hFile (snd updated)))"
  by (simp add: cfapi_update_placeholder_def Let_def split: prod.split)

lemma create_info_times:
  "CreationTime (BasicInfo (FsMetadata (placeholder_create_info n b s t d)))
     = (t + 11644473600) * 10000000"
  "LastAccessTime (BasicInfo (FsMetadata (placeholder_create_info n b s t d)))
     = (t + 11644473600) * 10000000"
  "LastWriteTime (BasicInfo (FsMetadata (placeholder_create_info n b s t d)))
     = (t + 11644473600) * 10000000"
  "ChangeTime (BasicInfo (FsMetadata (placeholder_create_info n b s t d)))
     = (t + 11644473600) * 10000000"
  by (simp_all add: placeholder_create_info_def Let_def reinterpret_UnixToFileTime)

section \<open>The reference platform at work\<close>

lemma SUCCEEDED_iff: "SUCCEEDED hr = (\<not> FAILED hr)"
  by (auto simp: SUCCEEDED_def FAILED_def)

lemma ex_wide:
  "Utf8ToWide ref_platform (Some ex_root) = [0x43, 0x3A, 0x5C, 0x73]"
  "Utf8ToWide ref_platform (Some ex_name) = [0x61]"
  "Utf8ToWide ref_platform (Some ex_version) = [0x31]"
  by (simp_all add: Utf8ToWide_def ref_platform_def ex_root_def ex_name_def ex_version_def
      strlen_def Let_def)

lemma ref_connected_eq:
  "ref_connected =
     ref_world0\<lparr>roots := [[0x43, 0x3A, 0x5C, 0x73] \<mapsto>
                    (sync_registration [0x61] [0x31], sync_policies)],
                live := [1], issued := 1\<rparr>"
  unfolding ref_connected_def cfapi_connect_sync_root_def cfapi_register_sync_root_def
    ex_wide Let_def
  by (simp add: ref_platform_def ref_CfConnectSyncRoot_def ref_CfRegisterSyncRoot_def
      ref_world0_def)



lemma ref_register_in_place: "register_updates_in_place ref_platform"
  by (simp add: register_updates_in_place_def ref_platform_def ref_CfRegisterSyncRoot_def)

lemma ref_stores_placeholders: "stores_placeholders ref_platform ref_metadata_read"
  by (simp add: stores_placeholders_def ref_platform_def ref_CfCreatePlaceholders_def
      ref_metadata_read_def SUCCEEDED_def FAILED_def E_FAIL_def S_OK_def)


section \<open>Placeholder creation\<close>

lemma create_info_name: "RelativeFileName (placeholder_create_info n b s t d) = n"
  by (simp add: placeholder_create_info_def Let_def)

lemma create_info_identity:
  "FileIdentity (placeholder_create_info n b s t d) = b"
  "FileIdentityLength (placeholder_create_info n b s t d) = of_nat (strlen b)"
  "FileSize (FsMetadata (placeholder_create_info n b s t d)) = s"
  by (simp_all add: placeholder_create_info_def Let_def)

lemma strlen_no_NUL: "0 \<notin> set b \<Longrightarrow> strlen b = length b"
  unfolding strlen_def by (induction b) auto

lemma read_bytes_whole: "length b < 2 ^ 32 \<Longrightarrow> read_bytes b (of_nat (length b)) = b"
  by (simp add: read_bytes_def unsigned_of_nat take_bit_nat_eq_self)

text \<open>The cast to \<^verbatim>\<open>DWORD\<close> is why the round trip needs an identity shorter than
  \<open>2 ^ 32\<close> bytes.\<close>

lemma identity_length_truncates:
  "0 \<notin> set b \<Longrightarrow> length b = 2 ^ 32 \<Longrightarrow>
     FileIdentityLength (placeholder_create_info n b s t d) = 0"
  by (simp add: create_info_identity strlen_no_NUL)

text \<open>Where neither the sum nor the product leaves the signed 64-bit range, the machine
  arithmetic is the arithmetic of the integers.\<close>

lemma sint_add_mult_in_range:
  fixes t c k :: "64 word"
  assumes sum: "- (2 ^ 63) \<le> sint t + sint c" "sint t + sint c < 2 ^ 63"
      and prod: "- (2 ^ 63) \<le> (sint t + sint c) * sint k" "(sint t + sint c) * sint k < 2 ^ 63"
  shows "sint ((t + c) * k) = (sint t + sint c) * sint k"
proof -
  have "sint (t + c) = signed_take_bit 63 (sint t + sint c)"
    by (simp add: sint_word_ariths)
  also have "\<dots> = sint t + sint c"
    using sum by (intro signed_take_bit_int_eq_self) auto
  finally have s: "sint (t + c) = sint t + sint c" .
  have "sint ((t + c) * k) = signed_take_bit 63 (sint (t + c) * sint k)"
    by (simp only: sint_word_ariths) simp
  also have "\<dots> = (sint t + sint c) * sint k"
    unfolding s using prod by (intro signed_take_bit_int_eq_self) auto
  finally show ?thesis .
qed

lemma sint_filetime:
  fixes t :: "64 word"
  assumes lo: "- 922337203685 \<le> sint t + 11644473600"
      and hi: "sint t + 11644473600 \<le> 922337203685"
  shows "sint ((t + 11644473600) * 10000000) = (sint t + 11644473600) * 10000000"
proof -
  have c: "sint (11644473600 :: 64 word) = 11644473600" by simp
  have k: "sint (10000000 :: 64 word) = 10000000" by simp
  have "sint ((t + 11644473600) * 10000000)
          = (sint t + sint (11644473600 :: 64 word)) * sint (10000000 :: 64 word)"
    using lo hi unfolding c k
    by (intro sint_add_mult_in_range [where c = 11644473600 and k = 10000000, unfolded c k])
       auto
  then show ?thesis unfolding c k .
qed

lemma seconds_of_filetime:
  fixes t :: "64 word"
  assumes lo: "- 922337203685 \<le> sint t + 11644473600"
      and hi: "sint t + 11644473600 \<le> 922337203685"
  shows "filetime_unix_seconds ((t + 11644473600) * 10000000) = sint t"
  unfolding filetime_unix_seconds_def sint_filetime [OF lo hi] by simp

lemma create_info_times_sint:
  assumes lo: "- 922337203685 \<le> sint t + 11644473600"
      and hi: "sint t + 11644473600 \<le> 922337203685"
  shows "sint (CreationTime (BasicInfo (FsMetadata (placeholder_create_info n b s t d))))
           = (sint t + 11644473600) * 10000000"
    "sint (LastAccessTime (BasicInfo (FsMetadata (placeholder_create_info n b s t d))))
           = (sint t + 11644473600) * 10000000"
    "sint (LastWriteTime (BasicInfo (FsMetadata (placeholder_create_info n b s t d))))
           = (sint t + 11644473600) * 10000000"
    "sint (ChangeTime (BasicInfo (FsMetadata (placeholder_create_info n b s t d))))
           = (sint t + 11644473600) * 10000000"
  unfolding create_info_times by (rule sint_filetime [OF lo hi])+

text \<open>
  \<^bold>\<open>C3\<close>, as stated, fails. The sum and the product are taken in unsigned 64-bit
  arithmetic and stored in a signed 64-bit field, so they wrap around. On the reference
  platform, creating a placeholder with time 910692730086 succeeds and stores four
  timestamps of \<open>- 9223372036849551616\<close>, where the formula gives
  \<open>9223372036860000000\<close>.
\<close>

theorem create_timestamps_formula_counterexample:
  "fst (projr (cfapi_create_placeholder ref_platform (Some ex_root) (Some ex_name)
                 (Some ex_ident) 0 910692730086 0 ref_world0)) = S_OK
   \<and> map_option fst
        (files (snd (projr (cfapi_create_placeholder ref_platform (Some ex_root)
                              (Some ex_name) (Some ex_ident) 0 910692730086 0 ref_world0)))
           [0x43, 0x3A, 0x5C, 0x73, 0x5C, 0x61])
     = Some \<lparr>BasicInfo =
                \<lparr>CreationTime = - 9223372036849551616,
                 LastAccessTime = - 9223372036849551616,
                 LastWriteTime = - 9223372036849551616,
                 ChangeTime = - 9223372036849551616,
                 FileAttributes = {FILE_ATTRIBUTE_NORMAL}\<rparr>,
              FileSize = 0\<rparr>
   \<and> sint (- 9223372036849551616 :: LONGLONG) = - 9223372036849551616
   \<and> (sint (910692730086 :: LONGLONG) + 11644473600) * 10000000 = 9223372036860000000"
  apply (simp add: cfapi_create_placeholder_def ref_platform_def Utf8ToWide_def ex_root_def
      ex_name_def strlen_def Let_def)
  apply (simp add: ref_CfCreatePlaceholders_def ref_world0_def ref_path_def strlen_def
      read_bytes_def placeholder_create_info_def Let_def reinterpret_UnixToFileTime
      SUCCEEDED_def FAILED_def S_OK_def ex_ident_def)
  done

text \<open>
  \<^bold>\<open>C3\<close>, amended. For every Unix timestamp \<open>t\<close>, the creation path submits the
  placeholder record of \<open>placeholder_create_info\<close>, whose four timestamp fields
  (creation, last write, change, last access) hold one and the same value, the value of
  \<open>(t + 11644473600) * 10000000\<close> modulo \<open>2 ^ 64\<close>. For every \<open>t\<close> whose count
  \<open>(t + 11644473600) * 10000000\<close> of 100-ns units fits the signed 64-bit field, that is
  \<open>- 922337203685 \<le> t + 11644473600 \<le> 922337203685\<close>, each field holds exactly
  \<open>(t + 11644473600) * 10000000\<close>.
\<close>

theorem create_timestamps_formula:
  "cfapi_create_placeholder pf parent_path name (Some ident) file_size t d w
     = (let created = CfCreatePlaceholders pf (Utf8ToWide pf parent_path)
                        (placeholder_create_info (Utf8ToWide pf name) ident file_size t d) {} w;
            hr = fst (fst created);
            phInfo_Result = snd (fst created)
        in Inr (if SUCCEEDED hr \<and> FAILED phInfo_Result then phInfo_Result else hr,
                snd created))
   \<and> LastWriteTime (BasicInfo (FsMetadata (placeholder_create_info wName ident file_size t d)))
     = CreationTime (BasicInfo (FsMetadata (placeholder_create_info wName ident file_size t d)))
   \<and> ChangeTime (BasicInfo (FsMetadata (placeholder_create_info wName ident file_size t d)))
     = CreationTime (BasicInfo (FsMetadata (placeholder_create_info wName ident file_size t d)))
   \<and> LastAccessTime (BasicInfo (FsMetadata (placeholder_create_info wName ident file_size t d)))
     = CreationTime (BasicInfo (FsMetadata (placeholder_create_info wName ident file_size t d)))
   \<and> uint (CreationTime (BasicInfo (FsMetadata
               (placeholder_create_info wName ident file_size t d))))
     = ((uint t + 11644473600) * 10000000) mod 2 ^ 64
   \<and> (- 922337203685 \<le> sint t + 11644473600 \<and> sint t + 11644473600 \<le> 922337203685 \<longrightarrow>
        sint (CreationTime (BasicInfo (FsMetadata
                (placeholder_create_info wName ident file_size t d))))
          = (sint t + 11644473600) * 10000000
      \<and> sint (LastWriteTime (BasicInfo (FsMetadata
                (placeholder_create_info wName ident file_size t d))))
          = (sint t + 11644473600) * 10000000
      \<and> sint (ChangeTime (BasicInfo (FsMetadata
                (placeholder_create_info wName ident file_size t d))))
          = (sint t + 11644473600) * 10000000
      \<and> sint (LastAccessTime (BasicInfo (FsMetadata
                (placeholder_create_info wName ident file_size t d))))
          = (sint t + 11644473600) * 10000000)"
proof -
  have tie: "cfapi_create_placeholder pf parent_path name (Some ident) file_size t d w
     = (let created = CfCreatePlaceholders pf (Utf8ToWide pf parent_path)
                        (placeholder_create_info (Utf8ToWide pf name) ident file_size t d) {} w;
            hr = fst (fst created);
            phInfo_Result = snd (fst created)
        in Inr (if SUCCEEDED hr \<and> FAILED phInfo_Result then phInfo_Result else hr,
                snd created))"
    by (rule create_placeholder_submits)
  have same: "LastWriteTime (BasicInfo (FsMetadata
                 (placeholder_create_info wName ident file_size t d)))
      = CreationTime (BasicInfo (FsMetadata (placeholder_create_info wName ident file_size t d)))"
    "ChangeTime (BasicInfo (FsMetadata (placeholder_create_info wName ident file_size t d)))
      = CreationTime (BasicInfo (FsMetadata (placeholder_create_info wName ident file_size t d)))"
    "LastAccessTime (BasicInfo (FsMetadata (placeholder_create_info wName ident file_size t d)))
      = CreationTime (BasicInfo (FsMetadata (placeholder_create_info wName ident file_size t d)))"
    by (simp_all only: create_info_times)
  have wrap: "uint (CreationTime (BasicInfo (FsMetadata
                 (placeholder_create_info wName ident file_size t d))))
      = ((uint t + 11644473600) * 10000000) mod 2 ^ 64"
    by (simp add: create_info_times uint_word_ariths mod_mult_left_eq mod_add_left_eq)
  have exact: "sint (CreationTime (BasicInfo (FsMetadata
                  (placeholder_create_info wName ident file_size t d))))
          = (sint t + 11644473600) * 10000000"
    if "- 922337203685 \<le> sint t + 11644473600" "sint t + 11644473600 \<le> 922337203685"
    by (rule create_info_times_sint(1) [OF that])
  show ?thesis
    using tie same wrap exact by (simp only: simp_thms) blast
qed

text \<open>At time 1700000000 every field holds 133444736000000000.\<close>

theorem create_timestamps_formula_witness:
  "sint (LastWriteTime (BasicInfo (FsMetadata
           (placeholder_create_info [0x61] ex_ident 1024 1700000000 0))))
     = 133444736000000000
   \<and> sint (LastAccessTime (BasicInfo (FsMetadata
           (placeholder_create_info [0x61] ex_ident 1024 1700000000 0))))
     = 133444736000000000
   \<and> (1700000000 + 11644473600) * 10000000 = (133444736000000000 :: int)"
  using create_timestamps_formula
    [of ref_platform "Some ex_root" "Some ex_name" ex_ident 1024 1700000000 0 ref_world0 "[0x61]"]
  by simp

text \<open>
  \<^bold>\<open>C1\<close>, as stated, fails. The identity length is \<^verbatim>\<open>strlen\<close> of the argument, so an
  identity blob with a NUL byte inside is cut at that byte; and the conversion wraps
  around for a timestamp whose 100-ns count does not fit 64 bits. On the reference
  platform, creating a placeholder with the identity \<^verbatim>\<open>a\<close>, NUL, \<^verbatim>\<open>b\<close>, size 5 and
  time \<open>2 ^ 62\<close> succeeds and stores the identity \<^verbatim>\<open>a\<close> alone, and timestamps that
  read as second 0.
\<close>

theorem create_placeholder_round_trip_counterexample:
  "fst (projr (cfapi_create_placeholder ref_platform (Some ex_root) (Some ex_name)
                 (Some [0x61, 0, 0x62]) 5 (2 ^ 62) 0 ref_world0)) = S_OK
   \<and> files (snd (projr (cfapi_create_placeholder ref_platform (Some ex_root) (Some ex_name)
                          (Some [0x61, 0, 0x62]) 5 (2 ^ 62) 0 ref_world0)))
        [0x43, 0x3A, 0x5C, 0x73, 0x5C, 0x61]
     = Some (\<lparr>BasicInfo =
                 \<lparr>CreationTime = 116444736000000000,
                  LastAccessTime = 116444736000000000,
                  LastWriteTime = 116444736000000000,
                  ChangeTime = 116444736000000000,
                  FileAttributes = {FILE_ATTRIBUTE_NORMAL}\<rparr>,
               FileSize = 5\<rparr>,
             [0x61])
   \<and> [0x61] \<noteq> [0x61, 0, 0x62 :: byte]
   \<and> filetime_unix_seconds 116444736000000000 = 0
   \<and> sint (2 ^ 62 :: LONGLONG) = 4611686018427387904"
  apply (simp add: cfapi_create_placeholder_def ref_platform_def Utf8ToWide_def ex_root_def
      ex_name_def strlen_def Let_def filetime_unix_seconds_def)
  apply (simp add: ref_CfCreatePlaceholders_def ref_world0_def ref_path_def strlen_def
      read_bytes_def placeholder_create_info_def Let_def reinterpret_UnixToFileTime
      SUCCEEDED_def FAILED_def S_OK_def)
  done

lemma created_status:
  assumes "cfapi_create_placeholder pf parent_path name (Some B) S T d w = Inr (hr, w')"
    and "SUCCEEDED hr"
  shows "SUCCEEDED (fst (fst (CfCreatePlaceholders pf (Utf8ToWide pf parent_path)
            (placeholder_create_info (Utf8ToWide pf name) B S T d) {} w)))"
    and "SUCCEEDED (snd (fst (CfCreatePlaceholders pf (Utf8ToWide pf parent_path)
            (placeholder_create_info (Utf8ToWide pf name) B S T d) {} w)))"
    and "w' = snd (CfCreatePlaceholders pf (Utf8ToWide pf parent_path)
            (placeholder_create_info (Utf8ToWide pf name) B S T d) {} w)"
  using assms
  by (auto simp: create_placeholder_submits Let_def SUCCEEDED_iff split: if_splits)

text \<open>
  \<^bold>\<open>C1\<close>, amended. Take an identity blob \<open>B\<close> without a NUL byte and shorter than
  \<open>2 ^ 32\<close> bytes, a size \<open>S\<close> and a whole-second timestamp \<open>T\<close> whose 100-ns count
  \<open>(T + 11644473600) * 10000000\<close> fits a signed 64-bit value. On every platform that
  keeps what it is given, a \<open>CreatePlaceholder\<close> that returns success, followed by a
  metadata read of the new entry, reports the size \<open>S\<close>, the identity \<open>B\<close> byte for byte
  (its length, \<open>length B\<close>, is the \<^verbatim>\<open>strlen\<close> of the argument) and four timestamps that
  each read as second \<open>T\<close>.
\<close>

theorem create_placeholder_round_trip:
  assumes stores: "stores_placeholders pf metadata_read"
    and nul: "0 \<notin> set B" and len: "length B < 2 ^ 32"
    and lo: "- 922337203685 \<le> sint T + 11644473600"
    and hi: "sint T + 11644473600 \<le> 922337203685"
    and created: "cfapi_create_placeholder pf parent_path name (Some B) S T d w = Inr (hr, w')"
    and ok: "SUCCEEDED hr"
  shows "metadata_read (Utf8ToWide pf parent_path) (Utf8ToWide pf name) w'
           = Some (FsMetadata (placeholder_create_info (Utf8ToWide pf name) B S T d), B)
    \<and> FileSize (FsMetadata (placeholder_create_info (Utf8ToWide pf name) B S T d)) = S
    \<and> unat (FileIdentityLength (placeholder_create_info (Utf8ToWide pf name) B S T d))
        = length B
    \<and> filetime_unix_seconds (CreationTime (BasicInfo (FsMetadata
         (placeholder_create_info (Utf8ToWide pf name) B S T d)))) = sint T
    \<and> filetime_unix_seconds (LastWriteTime (BasicInfo (FsMetadata
         (placeholder_create_info (Utf8ToWide pf name) B S T d)))) = sint T
    \<and> filetime_unix_seconds (ChangeTime (BasicInfo (FsMetadata
         (placeholder_create_info (Utf8ToWide pf name) B S T d)))) = sint T
    \<and> filetime_unix_seconds (LastAccessTime (BasicInfo (FsMetadata
         (placeholder_create_info (Utf8ToWide pf name) B S T d)))) = sint T"
proof -
  let ?info = "placeholder_create_info (Utf8ToWide pf name) B S T d"
  let ?call = "CfCreatePlaceholders pf (Utf8ToWide pf parent_path) ?info {} w"
  have lenB: "unat (of_nat (length B) :: DWORD) = length B"
    using len by (simp add: unsigned_of_nat take_bit_nat_eq_self)
  have ident: "read_bytes (FileIdentity ?info) (FileIdentityLength ?info) = B"
    using nul len by (simp add: create_info_identity strlen_no_NUL read_bytes_whole)
  have secs: "filetime_unix_seconds ((T + 11644473600) * 10000000) = sint T"
    by (rule seconds_of_filetime [OF lo hi])
  have "metadata_read (Utf8ToWide pf parent_path) (RelativeFileName ?info) (snd ?call)
          = Some (FsMetadata ?info, read_bytes (FileIdentity ?info) (FileIdentityLength ?info))"
    using stores created_status(1,2) [OF created ok]
    unfolding stores_placeholders_def by blast
  then have read: "metadata_read (Utf8ToWide pf parent_path) (Utf8ToWide pf name) w'
          = Some (FsMetadata ?info, B)"
    unfolding create_info_name ident created_status(3) [OF created ok] .
  show ?thesis
    unfolding create_info_times create_info_identity
    using read lenB secs nul by (simp only: strlen_no_NUL simp_thms)
qed

lemma ex_ident_read:
  "read_bytes ex_ident (of_nat (strlen ex_ident)) = ex_ident"
  by (simp add: read_bytes_def strlen_def ex_ident_def)

lemma ref_create_ex:
  "cfapi_create_placeholder ref_platform (Some ex_root) (Some ex_name) (Some ex_ident) 1024
     1700000000 0 ref_world0
   = Inr (S_OK, ref_world0\<lparr>files := [ref_path [0x43, 0x3A, 0x5C, 0x73] [0x61] \<mapsto>
        (FsMetadata (placeholder_create_info [0x61] ex_ident 1024 1700000000 0), ex_ident)]\<rparr>)"
  unfolding create_placeholder_submits ex_wide Let_def
  by (simp add: ref_platform_def ref_CfCreatePlaceholders_def ref_world0_def
      create_info_identity create_info_name ex_ident_read SUCCEEDED_def FAILED_def S_OK_def)

text \<open>The round trip on the reference platform, from a fresh world: the entry \<^verbatim>\<open>a\<close>
  under \<^verbatim>\<open>C:\s\<close> with the identity \<^verbatim>\<open>id\<close>, size 1024 and time 1700000000.\<close>

theorem create_placeholder_round_trip_witness:
  "ref_metadata_read [0x43, 0x3A, 0x5C, 0x73] [0x61]
      (snd (projr (cfapi_create_placeholder ref_platform (Some ex_root) (Some ex_name)
                     (Some ex_ident) 1024 1700000000 0 ref_world0)))
     = Some (FsMetadata (placeholder_create_info [0x61] ex_ident 1024 1700000000 0),
             [0x69, 0x64])
   \<and> FileSize (FsMetadata (placeholder_create_info [0x61] ex_ident 1024 1700000000 0)) = 1024
   \<and> filetime_unix_seconds (LastWriteTime (BasicInfo (FsMetadata
        (placeholder_create_info [0x61] ex_ident 1024 1700000000 0)))) = 1700000000"
proof -
  have ok: "SUCCEEDED S_OK" by (simp add: SUCCEEDED_def S_OK_def)
  have nul: "0 \<notin> set ex_ident" and len: "length ex_ident < 2 ^ 32"
    by (simp_all add: ex_ident_def)
  have lo: "- 922337203685 \<le> sint (1700000000 :: LONGLONG) + 11644473600"
    and hi: "sint (1700000000 :: LONGLONG) + 11644473600 \<le> 922337203685"
    by simp_all
  from create_placeholder_round_trip
         [OF ref_stores_placeholders nul len lo hi ref_create_ex ok]
  show ?thesis unfolding ref_create_ex ex_wide by (simp add: ex_ident_def)
qed

text \<open>
  \<^bold>\<open>C8.\<close> Every creation call submits the record of \<open>placeholder_create_info\<close>, in
  which a nonzero \<open>is_directory\<close> gives the directory attribute
  and the creation flags \<open>MARK_IN_SYNC\<close> and \<open>DISABLE_ON_DEMAND_POPULATION\<close>; a zero
  \<open>is_directory\<close> gives the normal attribute and \<open>MARK_IN_SYNC\<close> alone. On-demand
  population is disabled exactly for directories.
\<close>

theorem create_placeholder_directory_flags:
  "cfapi_create_placeholder pf parent_path name (Some ident) file_size t is_directory w
     = (let created = CfCreatePlaceholders pf (Utf8ToWide pf parent_path)
                        (placeholder_create_info (Utf8ToWide pf name) ident file_size t
                           is_directory) {} w;
            hr = fst (fst created);
            phInfo_Result = snd (fst created)
        in Inr (if SUCCEEDED hr \<and> FAILED phInfo_Result then phInfo_Result else hr,
                snd created))
   \<and> FileAttributes (BasicInfo (FsMetadata
      (placeholder_create_info wName ident file_size t is_directory)))
     = (if is_directory \<noteq> 0 then {FILE_ATTRIBUTE_DIRECTORY} else {FILE_ATTRIBUTE_NORMAL})
   \<and> Flags (placeholder_create_info wName ident file_size t is_directory)
     = (if is_directory \<noteq> 0
        then {CF_PLACEHOLDER_CREATE_FLAG_MARK_IN_SYNC,
              CF_PLACEHOLDER_CREATE_FLAG_DISABLE_ON_DEMAND_POPULATION}
        else {CF_PLACEHOLDER_CREATE_FLAG_MARK_IN_SYNC})
   \<and> (CF_PLACEHOLDER_CREATE_FLAG_DISABLE_ON_DEMAND_POPULATION
         \<in> Flags (placeholder_create_info wName ident file_size t is_directory))
     = (is_directory \<noteq> 0)"
  unfolding create_placeholder_submits
  by (simp add: placeholder_create_info_def Let_def)

section \<open>Placeholder update\<close>

text \<open>
  \<^bold>\<open>C10.\<close> An update that opens its file pushes the metadata of \<open>update_fs_metadata\<close>
  with the new identity, and that metadata sets the file size, the last-write time and the
  change time, both times from the input time; its creation time and last-access time
  (and its attributes) stay zero. Creation sets the creation time and the last-access
  time from the input time as well.
\<close>

theorem update_placeholder_metadata_frame:
  "cfapi_update_placeholder pf file_path (Some ident) file_size t w
     = (let opened = CreateFileW pf (Utf8ToWide pf file_path) {WRITE_DAC} {FILE_SHARE_READ}
                       OPEN_EXISTING {FILE_FLAG_BACKUP_SEMANTICS} w;
            hFile = fst opened;
            w1 = snd opened;
            updated = CfUpdatePlaceholder pf hFile (update_fs_metadata file_size t) ident
                        (of_nat (strlen ident)) {CF_UPDATE_FLAG_MARK_IN_SYNC} w1
        in if hFile = INVALID_HANDLE_VALUE
           then Inr (HRESULT_FROM_WIN32 pf (GetLastError pf w1), w1)
           else Inr (fst updated, CloseHandle pf hFile (snd updated)))
   \<and> FileSize (update_fs_metadata file_size t) = file_size
   \<and> LastWriteTime (BasicInfo (update_fs_metadata file_size t)) = (t + 11644473600) * 10000000
   \<and> ChangeTime (BasicInfo (update_fs_metadata file_size t)) = (t + 11644473600) * 10000000
   \<and> CreationTime (BasicInfo (update_fs_metadata file_size t)) = 0
   \<and> LastAccessTime (BasicInfo (update_fs_metadata file_size t)) = 0
   \<and> FileAttributes (BasicInfo (update_fs_metadata file_size t)) = {}
   \<and> CreationTime (BasicInfo (FsMetadata (placeholder_create_info wName ident file_size t d)))
       = (t + 11644473600) * 10000000
   \<and> LastAccessTime (BasicInfo (FsMetadata (placeholder_create_info wName ident file_size t d)))
       = (t + 11644473600) * 10000000"
  unfolding update_placeholder_submits
  by (simp add: update_fs_metadata_def Let_def reinterpret_UnixToFileTime create_info_times)

section \<open>Registration\<close>

text \<open>
  \<^bold>\<open>C7.\<close> Whatever its arguments, a registration submits the provider identifier
  \<^verbatim>\<open>{A1B2C3D4-E5F6-7890-ABCD-EF1234567890}\<close>, a constant of 128 bits, and the policies
  \<open>Hydration.Primary = FULL\<close>, \<open>Population.Primary = FULL\<close>, \<open>InSync = TRACK_ALL\<close>,
  \<open>HardLink = NONE\<close>.
\<close>

theorem register_fixed_provider_and_policies:
  "cfapi_register_sync_root pf sync_root_path display_name version w
     = CfRegisterSyncRoot pf (Utf8ToWide pf sync_root_path)
         (sync_registration (Utf8ToWide pf display_name) (Utf8ToWide pf version))
         sync_policies {CF_REGISTER_FLAG_UPDATE} w
   \<and> ProviderId (sync_registration wName wVer)
     = \<lparr>Data1 = 0xa1b2c3d4, Data2 = 0xe5f6, Data3 = 0x7890,
        Data4 = [0xab, 0xcd, 0xef, 0x12, 0x34, 0x56, 0x78, 0x90]\<rparr>
   \<and> LENGTH(32) + LENGTH(16) + LENGTH(16)
       + LENGTH(8) * length (Data4 (ProviderId (sync_registration wName wVer))) = 128
   \<and> Hydration_Primary sync_policies = CF_HYDRATION_POLICY_FULL
   \<and> Population_Primary sync_policies = CF_POPULATION_POLICY_FULL
   \<and> InSync sync_policies = CF_INSYNC_POLICY_TRACK_ALL
   \<and> HardLink sync_policies = CF_HARDLINK_POLICY_NONE"
  by (simp add: cfapi_register_sync_root_def sync_registration_def s_providerId_def
      sync_policies_def Let_def)

text \<open>
  \<^bold>\<open>C6.\<close> The shim registers with \<open>CF_REGISTER_FLAG_UPDATE\<close> and builds the whole request
  from its arguments alone. So on every platform that updates a registration in place,
  a second \<open>Register\<close> with the same arguments returns the status of the first and
  leaves the state the first left: no failure, no second registration.
\<close>

theorem register_idempotent:
  assumes "register_updates_in_place pf"
  shows "cfapi_register_sync_root pf sync_root_path display_name version
           (snd (cfapi_register_sync_root pf sync_root_path display_name version w))
         = cfapi_register_sync_root pf sync_root_path display_name version w"
  using assms by (simp add: register_updates_in_place_def cfapi_register_sync_root_def Let_def)

text \<open>On the reference platform, which refuses a second registration that lacks the
  flag: registering \<^verbatim>\<open>C:\s\<close> twice from a fresh world succeeds and leaves the one
  registration.\<close>

theorem register_idempotent_witness:
  "cfapi_register_sync_root ref_platform (Some ex_root) (Some ex_name) (Some ex_version)
     (snd (cfapi_register_sync_root ref_platform (Some ex_root) (Some ex_name)
             (Some ex_version) ref_world0))
   = (S_OK, ref_world0\<lparr>roots := [[0x43, 0x3A, 0x5C, 0x73] \<mapsto>
                    (sync_registration [0x61] [0x31], sync_policies)]\<rparr>)"
proof -
  have once: "cfapi_register_sync_root ref_platform (Some ex_root) (Some ex_name)
                (Some ex_version) ref_world0
              = (S_OK, ref_world0\<lparr>roots := [[0x43, 0x3A, 0x5C, 0x73] \<mapsto>
                    (sync_registration [0x61] [0x31], sync_policies)]\<rparr>)"
    unfolding cfapi_register_sync_root_def ex_wide Let_def
    by (simp add: ref_platform_def ref_CfRegisterSyncRoot_def ref_world0_def)
  from register_idempotent [OF ref_register_in_place,
      of "Some ex_root" "Some ex_name" "Some ex_version" ref_world0]
  show ?thesis unfolding once .
qed

section \<open>Transfers\<close>

text \<open>
  \<^bold>\<open>C9\<close>, as stated, fails in one word: the completion status of a \<open>Fail\<close> is the given
  code whatever it is, so it is zero when the given code is zero. On the reference
  platform with connection 1 live, \<open>Fail\<close> with code 0 hands over a record whose
  completion status is 0.
\<close>

theorem transfer_error_zero_status_counterexample:
  "transfers (snd (cfapi_transfer_error ref_platform 1 7 0 0 ref_connected))
     = [(\<lparr>Type = CF_OPERATION_TYPE_TRANSFER_DATA, ConnectionKey = 1, TransferKey = 7,
          RequestKey = 0\<rparr>,
         \<lparr>TransferDataFlags = {}, CompletionStatus = 0, Buffer = nullptr, Offset = 0,
          Length = 0\<rparr>)]"
  by (simp add: cfapi_transfer_error_def ref_platform_def ref_CfExecute_def transfer_op_info_def
      transfer_error_params_def ref_connected_eq ref_world0_def)

text \<open>
  \<^bold>\<open>C9\<close>, amended. Every \<open>Fail\<close> submits the given connection key and transfer key, a
  completion status equal to the given code (nonzero exactly when that code is nonzero),
  a null buffer, the given offset and length 0. Every \<open>Complete\<close> submits the two keys,
  completion status 0, the given buffer, the given offset and the given length.
\<close>

theorem transfer_completion_records:
  "cfapi_transfer_error pf conn_key transfer_key offset hr w
     = ((), snd (CfExecute pf (transfer_op_info conn_key transfer_key)
                   (transfer_error_params offset hr) w))
   \<and> cfapi_transfer_data pf conn_key transfer_key data offset len w
     = CfExecute pf (transfer_op_info conn_key transfer_key)
         (transfer_data_params data offset len) w
   \<and> ConnectionKey (transfer_op_info conn_key transfer_key) = conn_key
   \<and> TransferKey (transfer_op_info conn_key transfer_key) = transfer_key
   \<and> CompletionStatus (transfer_error_params offset hr) = hr
   \<and> (CompletionStatus (transfer_error_params offset hr) \<noteq> 0) = (hr \<noteq> 0)
   \<and> Buffer (transfer_error_params offset hr) = nullptr
   \<and> Offset (transfer_error_params offset hr) = offset
   \<and> Length (transfer_error_params offset hr) = 0
   \<and> CompletionStatus (transfer_data_params data offset len) = 0
   \<and> Buffer (transfer_data_params data offset len) = data
   \<and> Offset (transfer_data_params data offset len) = offset
   \<and> Length (transfer_data_params data offset len) = len"
  by (simp add: cfapi_transfer_error_def cfapi_transfer_data_def transfer_op_info_def
      transfer_error_params_def transfer_data_params_def STATUS_SUCCESS_def)




section \<open>Statuses\<close>

text \<open>
  \<^bold>\<open>C4\<close>, as stated, fails for \<open>init\<close>: \<^verbatim>\<open>cfapi_init\<close> answers the failing platform status
  \<open>RPC_E_CHANGED_MODE\<close> with 0. On the reference platform, in a thread that COM already
  runs in apartment mode, \<^verbatim>\<open>CoInitializeEx\<close> fails with that status and \<^verbatim>\<open>cfapi_init\<close>
  returns success.
\<close>

theorem init_swallows_changed_mode_counterexample:
  "fst (CoInitializeEx ref_platform COINIT_MULTITHREADED
          (ref_world0\<lparr>com_mode := Some COINIT_APARTMENTTHREADED\<rparr>)) = RPC_E_CHANGED_MODE
   \<and> FAILED RPC_E_CHANGED_MODE
   \<and> RPC_E_CHANGED_MODE \<noteq> 0
   \<and> fst (cfapi_init ref_platform (ref_world0\<lparr>com_mode := Some COINIT_APARTMENTTHREADED\<rparr>))
       = 0"
  by (simp add: cfapi_init_def ref_platform_def ref_CoInitializeEx_def ref_world0_def
      FAILED_def RPC_E_CHANGED_MODE_def)

text \<open>
  \<^bold>\<open>C4\<close>, amended. \<open>register\<close>, \<open>unregister\<close>, \<open>connect\<close> and \<open>transfer data\<close> return the
  status of their one platform call unchanged. \<open>create\<close> (identity not null) returns the
  status of \<^verbatim>\<open>CfCreatePlaceholders\<close> if that failed, else the entry's \<open>Result\<close> if that
  failed, else the status of the call. \<open>update\<close> (identity not null) and \<open>dehydrate\<close>
  return \<^verbatim>\<open>HRESULT_FROM_WIN32(GetLastError())\<close> when the file cannot be opened and
  the status of \<^verbatim>\<open>CfUpdatePlaceholder\<close> or \<^verbatim>\<open>CfDehydratePlaceholder\<close> otherwise. \<open>init\<close>
  returns a failing status of \<^verbatim>\<open>CoInitializeEx\<close> unchanged, except
  \<open>RPC_E_CHANGED_MODE\<close>, for which it returns 0 as it does for every success.
\<close>

theorem status_propagation:
  "(let hr = fst (CoInitializeEx pf COINIT_MULTITHREADED w)
    in fst (cfapi_init pf w)
         = (if hr = RPC_E_CHANGED_MODE then 0 else if FAILED hr then hr else 0))
   \<and> fst (cfapi_register_sync_root pf sync_root_path display_name version w)
     = fst (CfRegisterSyncRoot pf (Utf8ToWide pf sync_root_path)
              (sync_registration (Utf8ToWide pf display_name) (Utf8ToWide pf version))
              sync_policies {CF_REGISTER_FLAG_UPDATE} w)
   \<and> fst (cfapi_unregister_sync_root pf sync_root_path w)
     = fst (CfUnregisterSyncRoot pf (Utf8ToWide pf sync_root_path) w)
   \<and> fst (fst (cfapi_connect_sync_root pf sync_root_path w))
     = fst (fst (CfConnectSyncRoot pf (Utf8ToWide pf sync_root_path) s_callbackTable
                   {CF_CONNECT_FLAG_REQUIRE_PROCESS_INFO,
                    CF_CONNECT_FLAG_REQUIRE_FULL_FILE_PATH} w))
   \<and> fst (cfapi_transfer_data pf conn_key transfer_key data offset len w)
     = fst (CfExecute pf (transfer_op_info conn_key transfer_key)
              (transfer_data_params data offset len) w)
   \<and> (let created = fst (CfCreatePlaceholders pf (Utf8ToWide pf parent_path)
                            (placeholder_create_info (Utf8ToWide pf name) ident file_size t d)
                            {} w);
          hr = fst created;
          phInfo_Result = snd created
      in map_sum id fst
           (cfapi_create_placeholder pf parent_path name (Some ident) file_size t d w)
         = Inr (if FAILED hr then hr else if FAILED phInfo_Result then phInfo_Result else hr))
   \<and> (let opened = CreateFileW pf (Utf8ToWide pf file_path) {WRITE_DAC} {FILE_SHARE_READ}
                      OPEN_EXISTING {FILE_FLAG_BACKUP_SEMANTICS} w;
          hFile = fst opened;
          w1 = snd opened
      in map_sum id fst (cfapi_update_placeholder pf file_path (Some ident) file_size t w)
         = Inr (if hFile = INVALID_HANDLE_VALUE then HRESULT_FROM_WIN32 pf (GetLastError pf w1)
                else fst (CfUpdatePlaceholder pf hFile (update_fs_metadata file_size t) ident
                            (of_nat (strlen ident)) {CF_UPDATE_FLAG_MARK_IN_SYNC} w1)))
   \<and> (let opened = CreateFileW pf (Utf8ToWide pf file_path) {WRITE_DAC} {FILE_SHARE_READ}
                      OPEN_EXISTING {FILE_FLAG_BACKUP_SEMANTICS} w;
          hFile = fst opened;
          w1 = snd opened
      in fst (cfapi_dehydrate_placeholder pf file_path w)
         = (if hFile = INVALID_HANDLE_VALUE then HRESULT_FROM_WIN32 pf (GetLastError pf w1)
            else fst (CfDehydratePlaceholder pf hFile 0 (- 1) {} w1)))"
  by (simp add: cfapi_init_def cfapi_register_sync_root_def cfapi_unregister_sync_root_def
      cfapi_connect_sync_root_def cfapi_transfer_data_def cfapi_create_placeholder_def
      cfapi_update_placeholder_def cfapi_dehydrate_placeholder_def Let_def SUCCEEDED_iff
      split: prod.split)

end
